theory Spec2Isabelle
  imports Main
begin

section \<open>Data model\<close>

text \<open>
  The development embeds \<^verbatim>\<open>api/research/deep_research.py\<close> and the three functions of
  \<^verbatim>\<open>api/research/providers.py\<close> that it calls. An exception is identified with its
  message (\<^verbatim>\<open>str(e)\<close>); only subclasses of \<^verbatim>\<open>Exception\<close> are modelled, since these
  are what the source's \<^verbatim>\<open>except Exception\<close> clauses catch. Calls to the logger have no
  effect on control flow and are left out.
\<close>

type_synonym exc = string

type_synonym query_info = "string \<rightharpoonup> string"

record document =
  doc_text :: "string option"
  doc_file_path :: "string option"

record ResearchResult =
  learnings :: "string list"
  final_report :: string

text \<open>What a call to a language model gives back inside a \<^verbatim>\<open>try\<close> block of providers.py:
  an exception (from configuration, the client, the network or \<^verbatim>\<open>json.loads\<close>), a response
  without \<^verbatim>\<open>choices\<close> / \<^verbatim>\<open>text\<close>, or the parsed JSON object.\<close>

datatype 'a llm_response = Raises exc | NoContent | Content 'a

text \<open>
  The external collaborators are scripts: the \<open>k\<close>-th call of a collaborator returns the
  \<open>k\<close>-th entry of its script, together with the number of seconds the call took. Every
  sequence of responses that a real run can see is such a script, whatever the arguments were.
  \<open>get_model_config\<close> belongs to \<^verbatim>\<open>api.config\<close>; it is a parameter: \<open>Some e\<close> when it
  raises for the provider.
\<close>

record env =
  get_model_config :: "string \<Rightarrow> exc option"
  llm_queries :: "nat \<Rightarrow> nat \<times> (string \<rightharpoonup> query_info list) llm_response"
  llm_learnings :: "nat \<Rightarrow> nat \<times> (string \<rightharpoonup> string list) llm_response"
  llm_report :: "nat \<Rightarrow> nat \<times> string list \<times> exc option"

text \<open>The parameters of \<^verbatim>\<open>deep_research\<close>. The sink's \<open>k\<close>-th call takes some seconds and
  either returns (\<open>None\<close>) or raises; the probe's \<open>k\<close>-th call returns a boolean.\<close>

record request =
  query :: string
  rag_instance :: "nat \<Rightarrow> nat \<times> (exc + document list list)"
  breadth :: int
  depth :: int
  provider :: string
  language :: string
  on_progress :: "(nat \<Rightarrow> nat \<times> exc option) option"
  check_cancelled :: "(nat \<Rightarrow> bool) option"

text \<open>Everything a run can be observed to do, in the order it happens.\<close>

datatype event =
    Probed bool
  | Progress string
  | ProgressFailed string exc
  | RoundStarted nat nat
  | QueryIssued nat nat nat
  | Extracted nat nat "string list"
  | ReportCalled

text \<open>The local variables of \<^verbatim>\<open>deep_research\<close> that change during the run, the wall clock
  (\<^verbatim>\<open>time.time()\<close>, in seconds), the number of calls made to each collaborator so far, and
  the trace of events.\<close>

record state =
  clock :: nat
  total_queries :: nat
  all_learnings :: "string list"
  iteration_learnings :: "string list"
  gen_calls :: nat
  rag_calls :: nat
  ext_calls :: nat
  rep_calls :: nat
  sink_calls :: nat
  probe_calls :: nat
  trace :: "event list"

datatype stop = Cancelled | TimedOut | QueryLimit | DepthReached | NoCandidates

section \<open>Constants and helpers\<close>

definition MAX_RESEARCH_TIME :: nat where
  "MAX_RESEARCH_TIME = 300"

definition MAX_QUERIES_PER_ITERATION :: int where
  "MAX_QUERIES_PER_ITERATION = 5"

definition MAX_TOTAL_QUERIES :: nat where
  "MAX_TOTAL_QUERIES = 20"

text \<open>Python's \<^verbatim>\<open>xs[:n]\<close>: a negative \<open>n\<close> counts from the end.\<close>

definition py_prefix :: "'a list \<Rightarrow> int \<Rightarrow> 'a list" where
  "py_prefix xs n =
     (if 0 \<le> n then take (nat n) xs else take (nat (int (length xs) + n)) xs)"

text \<open>Python's \<^verbatim>\<open>d.get(k, default)\<close>.\<close>

definition dict_get :: "('k \<rightharpoonup> 'v) \<Rightarrow> 'k \<Rightarrow> 'v \<Rightarrow> 'v" where
  "dict_get d k dflt = (case d k of None \<Rightarrow> dflt | Some v \<Rightarrow> v)"

text \<open>Decimal printing, for the f-strings.\<close>

function str_nat :: "nat \<Rightarrow> string" where
  "str_nat n =
     (if n < 10 then [''0123456789'' ! n]
      else str_nat (n div 10) @ [''0123456789'' ! (n mod 10)])"
  by pat_completeness auto
termination
  by (relation "measure (\<lambda>n. n)") auto

declare str_nat.simps [simp del]

definition str_int :: "int \<Rightarrow> string" where
  "str_int i = (if i < 0 then ''-'' @ str_nat (nat (- i)) else str_nat (nat i))"

text \<open>The providers with a branch of their own in providers.py
  (\<^verbatim>\<open>if provider == "openai": ... elif provider == "google": ...\<close>); the two branches
  differ only in the client they call.\<close>

definition known_provider :: "string \<Rightarrow> bool" where
  "known_provider prov = (prov = ''openai'' \<or> prov = ''google'')"

definition think :: "string \<Rightarrow> string" where
  "think body = ''<think>'' @ body @ ''</think>''"

section \<open>The progress sink and the cancellation probe\<close>

text \<open>\<^verbatim>\<open>if on_progress: await on_progress(msg)\<close>. The result is \<open>Some e\<close> when the sink
  raised \<open>e\<close>.\<close>

definition notify :: "request \<Rightarrow> string \<Rightarrow> state \<Rightarrow> exc option \<times> state" where
  "notify req msg s =
     (case on_progress req of
        None \<Rightarrow> (None, s)
      | Some sink \<Rightarrow>
          (case sink (sink_calls s) of
             (d, r) \<Rightarrow>
               (r, s\<lparr>clock := clock s + d, sink_calls := Suc (sink_calls s),
                     trace := trace s @
                       [case r of None \<Rightarrow> Progress msg | Some e \<Rightarrow> ProgressFailed msg e]\<rparr>)))"

text \<open>\<^verbatim>\<open>check_cancelled and check_cancelled()\<close>.\<close>

definition cancelled :: "request \<Rightarrow> state \<Rightarrow> bool \<times> state" where
  "cancelled req s =
     (case check_cancelled req of
        None \<Rightarrow> (False, s)
      | Some probe \<Rightarrow>
          (probe (probe_calls s),
           s\<lparr>probe_calls := Suc (probe_calls s),
             trace := trace s @ [Probed (probe (probe_calls s))]\<rparr>))"

section \<open>providers.py\<close>

text \<open>\<^verbatim>\<open>generate_research_queries\<close>: the whole body after the prompt is one \<^verbatim>\<open>try\<close>
  whose handler returns the empty list; an unsupported provider and a response without
  content fall through to \<^verbatim>\<open>return []\<close>.\<close>

definition generate_research_queries ::
  "env \<Rightarrow> string \<Rightarrow> int \<Rightarrow> string list option \<Rightarrow> string \<Rightarrow> state \<Rightarrow> query_info list \<times> state"
where
  "generate_research_queries ev original_query num_queries prior prov s =
     (case get_model_config ev prov of
        Some e \<Rightarrow> ([], s)
      | None \<Rightarrow>
          if known_provider prov then
            (case llm_queries ev (gen_calls s) of
               (d, r) \<Rightarrow>
                 (case r of
                    Raises e \<Rightarrow> ([], s\<lparr>clock := clock s + d, gen_calls := Suc (gen_calls s)\<rparr>)
                  | NoContent \<Rightarrow> ([], s\<lparr>clock := clock s + d, gen_calls := Suc (gen_calls s)\<rparr>)
                  | Content result \<Rightarrow>
                      (py_prefix (dict_get result ''queries'' []) num_queries,
                       s\<lparr>clock := clock s + d, gen_calls := Suc (gen_calls s)\<rparr>)))
          else ([], s))"

definition no_results :: "string \<rightharpoonup> string list" where
  "no_results = [''learnings'' \<mapsto> [], ''follow_up_questions'' \<mapsto> []]"

text \<open>\<^verbatim>\<open>process_research_results\<close>: at most the first ten documents are read, and only
  those with a text; the model is called only when one is left.\<close>

definition process_research_results ::
  "env \<Rightarrow> string \<Rightarrow> document list \<Rightarrow> int \<Rightarrow> int \<Rightarrow> string \<Rightarrow> state
     \<Rightarrow> (string \<rightharpoonup> string list) \<times> state"
where
  "process_research_results ev q retrieved_docs num_learnings num_follow_ups prov s =
     (if retrieved_docs = [] then (no_results, s)
      else if filter (\<lambda>d. doc_text d \<noteq> None \<and> doc_text d \<noteq> Some []) (take 10 retrieved_docs) = []
      then (no_results, s)
      else
        (case get_model_config ev prov of
           Some e \<Rightarrow> (no_results, s)
         | None \<Rightarrow>
             if known_provider prov then
               (case llm_learnings ev (ext_calls s) of
                  (d, r) \<Rightarrow>
                    (case r of
                       Raises e \<Rightarrow>
                         (no_results, s\<lparr>clock := clock s + d, ext_calls := Suc (ext_calls s)\<rparr>)
                     | NoContent \<Rightarrow>
                         (no_results, s\<lparr>clock := clock s + d, ext_calls := Suc (ext_calls s)\<rparr>)
                     | Content result \<Rightarrow>
                         ([''learnings'' \<mapsto> py_prefix (dict_get result ''learnings'' []) num_learnings,
                           ''follow_up_questions'' \<mapsto>
                              py_prefix (dict_get result ''follow_up_questions'' []) num_follow_ups],
                          s\<lparr>clock := clock s + d, ext_calls := Suc (ext_calls s)\<rparr>)))
             else (no_results, s)))"

text \<open>The streaming loops of \<^verbatim>\<open>write_final_report_streaming\<close>: a chunk without content
  is skipped; otherwise it goes to \<^verbatim>\<open>on_chunk\<close> and is then yielded. The result is the
  exception that left the loop, if any, and the chunks yielded so far.\<close>

fun stream_chunks :: "request \<Rightarrow> string list \<Rightarrow> state \<Rightarrow> (exc option \<times> string list) \<times> state" where
  "stream_chunks req [] s = ((None, []), s)"
| "stream_chunks req (c # cs) s =
     (if c = [] then stream_chunks req cs s
      else
        (case notify req c s of
           (Some e, s1) \<Rightarrow> ((Some e, []), s1)
         | (None, s1) \<Rightarrow>
             (case stream_chunks req cs s1 of
                ((r, ys), s2) \<Rightarrow> ((r, c # ys), s2))))"

definition report_error_msg :: "exc \<Rightarrow> string" where
  "report_error_msg e = ''Error generating final report: '' @ e"

definition unsupported_msg :: string where
  "unsupported_msg = ''Error: Unable to generate report with the specified provider.''"

text \<open>The \<^verbatim>\<open>try\<close> block of \<^verbatim>\<open>write_final_report_streaming\<close>.\<close>

definition report_try :: "env \<Rightarrow> request \<Rightarrow> state \<Rightarrow> (exc option \<times> string list) \<times> state" where
  "report_try ev req s =
     (case get_model_config ev (provider req) of
        Some e \<Rightarrow> ((Some e, []), s)
      | None \<Rightarrow>
          if known_provider (provider req) then
            (case llm_report ev (rep_calls s) of
               (d, chunks, fin) \<Rightarrow>
                 (case stream_chunks req chunks
                         (s\<lparr>clock := clock s + d, rep_calls := Suc (rep_calls s)\<rparr>) of
                    ((Some e, ys), s1) \<Rightarrow> ((Some e, ys), s1)
                  | ((None, ys), s1) \<Rightarrow> ((fin, ys), s1)))
          else
            (case notify req unsupported_msg s of
               (Some e, s1) \<Rightarrow> ((Some e, []), s1)
             | (None, s1) \<Rightarrow> ((None, [unsupported_msg]), s1)))"

text \<open>\<^verbatim>\<open>write_final_report_streaming\<close>, as its consumer sees it: the chunks it yields and
  the exception that leaves the generator, if any. The handler sends the error message to
  \<^verbatim>\<open>on_chunk\<close> outside any \<^verbatim>\<open>try\<close> and then yields it.\<close>

definition write_final_report_streaming ::
  "env \<Rightarrow> request \<Rightarrow> state \<Rightarrow> (exc option \<times> string list) \<times> state"
where
  "write_final_report_streaming ev req s =
     (case report_try ev req (s\<lparr>trace := trace s @ [ReportCalled]\<rparr>) of
        ((None, ys), s1) \<Rightarrow> ((None, ys), s1)
      | ((Some e, ys), s1) \<Rightarrow>
          (case notify req (report_error_msg e) s1 of
             (Some e', s2) \<Rightarrow> ((Some e', ys), s2)
           | (None, s2) \<Rightarrow> ((None, ys @ [report_error_msg e]), s2)))"

section \<open>deep_research.py\<close>

subsection \<open>Progress messages\<close>

definition start_msg :: "int \<Rightarrow> int \<Rightarrow> string" where
  "start_msg d b =
     think (''Starting deep research with depth='' @ str_int d @ '', breadth='' @ str_int b)"

definition cancelled_msg :: string where
  "cancelled_msg = think ''Research cancelled''"

definition timeout_msg :: string where
  "timeout_msg = think ''Research timeout - generating report with current findings''"

definition limit_msg :: string where
  "limit_msg = think ''Query limit reached - generating report''"

definition iteration_msg :: "nat \<Rightarrow> int \<Rightarrow> string" where
  "iteration_msg iteration d =
     think (''Research iteration '' @ str_nat (iteration + 1) @ ''/'' @ str_int d
            @ '': Generating search queries...'')"

definition no_queries_msg :: string where
  "no_queries_msg = think ''No new queries generated, ending research early''"

definition searching_msg :: "string \<Rightarrow> string" where
  "searching_msg search_query = think (''Searching codebase: '' @ search_query)"

definition found_msg :: "document list \<Rightarrow> string" where
  "found_msg documents =
     think (''Found '' @ str_nat (length documents) @ '' relevant code files, analyzing...'')"

definition extracted_msg :: "string list \<Rightarrow> string \<Rightarrow> string" where
  "extracted_msg query_learnings search_query =
     think (''Extracted '' @ str_nat (length query_learnings) @ '' insights from '' @ search_query)"

definition not_found_msg :: "string \<Rightarrow> string" where
  "not_found_msg search_query = think (''No relevant code found for: '' @ search_query)"

definition search_error_msg :: "string \<Rightarrow> string" where
  "search_error_msg search_query = think (''Error searching for: '' @ search_query)"

definition completed_msg :: "nat \<Rightarrow> string list \<Rightarrow> string" where
  "completed_msg iteration ls =
     think (''Iteration '' @ str_nat (iteration + 1) @ '' completed: '' @ str_nat (length ls)
            @ '' new insights discovered'')"

definition no_insights_msg :: "nat \<Rightarrow> string" where
  "no_insights_msg iteration = think (''No new insights in iteration '' @ str_nat (iteration + 1))"

definition final_msg :: string where
  "final_msg = think ''Generating final comprehensive report...''"

definition fallback_head :: string where
  "fallback_head =
     ''# Research Results'' @ [CHR 0x0A, CHR 0x0A]
     @ ''Unable to find sufficient information in the codebase to answer: ''"

definition fallback_tail :: string where
  "fallback_tail =
     [CHR 0x0A, CHR 0x0A]
     @ ''Please try rephrasing your question or ensure the repository has been properly indexed.''"

definition fallback_report :: "string \<Rightarrow> string" where
  "fallback_report q = fallback_head @ q @ fallback_tail"

subsection \<open>One candidate query\<close>

text \<open>The \<^verbatim>\<open>try\<close> block of lines 148 to 180, for the \<open>i\<close>-th candidate of round
  \<open>iteration\<close>. The result is the exception that reaches the \<^verbatim>\<open>except\<close> clause, if any.
  \<^verbatim>\<open>iteration_learnings.extend\<close> comes before the last message, so the buffer keeps the
  learnings even when that message fails.\<close>

definition search_and_extract ::
  "env \<Rightarrow> request \<Rightarrow> int \<Rightarrow> nat \<Rightarrow> nat \<Rightarrow> string \<Rightarrow> state \<Rightarrow> exc option \<times> state"
where
  "search_and_extract ev req b iteration i search_query s =
     (case rag_instance req (rag_calls s) of
        (d, r) \<Rightarrow>
          (case r of
             Inl e \<Rightarrow> (Some e, s\<lparr>clock := clock s + d, rag_calls := Suc (rag_calls s)\<rparr>)
           | Inr retrieved_results \<Rightarrow>
               if retrieved_results \<noteq> [] \<and> hd retrieved_results \<noteq> [] then
                 (case notify req (found_msg (hd retrieved_results))
                         (s\<lparr>clock := clock s + d, rag_calls := Suc (rag_calls s)\<rparr>) of
                    (Some e, s2) \<Rightarrow> (Some e, s2)
                  | (None, s2) \<Rightarrow>
                      (case process_research_results ev search_query (hd retrieved_results)
                              3 b (provider req) s2 of
                         (processed, s3) \<Rightarrow>
                           if dict_get processed ''learnings'' [] \<noteq> [] then
                             notify req
                               (extracted_msg (dict_get processed ''learnings'' []) search_query)
                               (s3\<lparr>iteration_learnings :=
                                      iteration_learnings s3 @ dict_get processed ''learnings'' [],
                                    trace := trace s3 @
                                      [Extracted iteration i (dict_get processed ''learnings'' [])]\<rparr>)
                           else
                             (None, s3\<lparr>trace := trace s3 @ [Extracted iteration i []]\<rparr>)))
               else
                 notify req (not_found_msg search_query)
                   (s\<lparr>clock := clock s + d, rag_calls := Suc (rag_calls s)\<rparr>)))"

text \<open>The loop \<^verbatim>\<open>for i, query_info in enumerate(queries)\<close>, at index \<open>i\<close> with the
  candidates still to come. \<^verbatim>\<open>break\<close> and the end of the list both leave it normally.\<close>

fun process_queries ::
  "env \<Rightarrow> request \<Rightarrow> int \<Rightarrow> nat \<Rightarrow> nat \<Rightarrow> query_info list \<Rightarrow> state \<Rightarrow> exc option \<times> state"
where
  "process_queries ev req b iteration i [] s = (None, s)"
| "process_queries ev req b iteration i (query_info # rest) s =
     (case cancelled req s of
        (True, s1) \<Rightarrow> (None, s1)
      | (False, s1) \<Rightarrow>
          if dict_get query_info ''query'' [] = [] then
            process_queries ev req b iteration (Suc i) rest
              (s1\<lparr>total_queries := Suc (total_queries s1),
                  trace := trace s1 @ [QueryIssued iteration i (clock s1)]\<rparr>)
          else
            (case notify req (searching_msg (dict_get query_info ''query'' []))
                    (s1\<lparr>total_queries := Suc (total_queries s1),
                        trace := trace s1 @ [QueryIssued iteration i (clock s1)]\<rparr>) of
               (Some e, s3) \<Rightarrow> (Some e, s3)
             | (None, s3) \<Rightarrow>
                 (case search_and_extract ev req b iteration i
                         (dict_get query_info ''query'' []) s3 of
                    (Some e, s4) \<Rightarrow>
                      (case notify req (search_error_msg (dict_get query_info ''query'' [])) s4 of
                         (Some e', s5) \<Rightarrow> (Some e', s5)
                       | (None, s5) \<Rightarrow> process_queries ev req b iteration (Suc i) rest s5)
                  | (None, s4) \<Rightarrow> process_queries ev req b iteration (Suc i) rest s4)))"

subsection \<open>One round and the round loop\<close>

text \<open>Lines 187 to 197: the round's buffer joins the cumulative learnings.\<close>

definition finish_round :: "request \<Rightarrow> nat \<Rightarrow> state \<Rightarrow> exc option \<times> state" where
  "finish_round req iteration s =
     (if iteration_learnings s \<noteq> [] then
        notify req (completed_msg iteration (iteration_learnings s))
          (s\<lparr>all_learnings := all_learnings s @ iteration_learnings s\<rparr>)
      else notify req (no_insights_msg iteration) s)"

text \<open>A \<^verbatim>\<open>break\<close> of the round loop after its message.\<close>

definition stop_with :: "request \<Rightarrow> string \<Rightarrow> stop \<Rightarrow> state \<Rightarrow> (exc + stop) \<times> state" where
  "stop_with req msg why s =
     (case notify req msg s of
        (Some e, s1) \<Rightarrow> (Inl e, s1)
      | (None, s1) \<Rightarrow> (Inr why, s1))"

text \<open>The loop \<^verbatim>\<open>for iteration in range(depth)\<close>, at index \<open>iteration\<close> with \<open>n\<close>
  indices of the range still to come; it starts at index 0 with \<open>nat depth\<close> indices, which
  is no index at all when \<open>depth \<le> 0\<close>. The result says how the loop was left.\<close>

fun research_loop ::
  "env \<Rightarrow> request \<Rightarrow> int \<Rightarrow> int \<Rightarrow> nat \<Rightarrow> nat \<Rightarrow> nat \<Rightarrow> state \<Rightarrow> (exc + stop) \<times> state"
where
  "research_loop ev req b d start_time iteration 0 s = (Inr DepthReached, s)"
| "research_loop ev req b d start_time iteration (Suc n) s =
     (case cancelled req s of
        (True, s1) \<Rightarrow> stop_with req cancelled_msg Cancelled s1
      | (False, s1) \<Rightarrow>
          if clock s1 - start_time > MAX_RESEARCH_TIME then stop_with req timeout_msg TimedOut s1
          else if total_queries s1 \<ge> MAX_TOTAL_QUERIES then stop_with req limit_msg QueryLimit s1
          else
            (case notify req (iteration_msg iteration d)
                    (s1\<lparr>trace := trace s1 @ [RoundStarted iteration (clock s1)]\<rparr>) of
               (Some e, s2) \<Rightarrow> (Inl e, s2)
             | (None, s2) \<Rightarrow>
                 (case generate_research_queries ev (query req) b
                         (if all_learnings s2 \<noteq> [] then Some (all_learnings s2) else None)
                         (provider req) s2 of
                    (queries, s3) \<Rightarrow>
                      if queries = [] then stop_with req no_queries_msg NoCandidates s3
                      else
                        (case process_queries ev req b iteration 0 queries
                                (s3\<lparr>iteration_learnings := []\<rparr>) of
                           (Some e, s4) \<Rightarrow> (Inl e, s4)
                         | (None, s4) \<Rightarrow>
                             (case finish_round req iteration s4 of
                                (Some e, s5) \<Rightarrow> (Inl e, s5)
                              | (None, s5) \<Rightarrow>
                                  research_loop ev req b d start_time (Suc iteration) n s5)))))"

subsection \<open>The report phase and the whole run\<close>

text \<open>Lines 201 to 242.\<close>

definition report_phase :: "env \<Rightarrow> request \<Rightarrow> state \<Rightarrow> (exc + ResearchResult) \<times> state" where
  "report_phase ev req s =
     (case notify req final_msg s of
        (Some e, s1) \<Rightarrow> (Inl e, s1)
      | (None, s1) \<Rightarrow>
          if all_learnings s1 \<noteq> [] then
            (case write_final_report_streaming ev req s1 of
               ((Some e, ys), s2) \<Rightarrow> (Inl e, s2)
             | ((None, ys), s2) \<Rightarrow>
                 (Inr \<lparr>learnings = all_learnings s2, final_report = concat ys\<rparr>, s2))
          else
            (case notify req (fallback_report (query req)) s1 of
               (Some e, s2) \<Rightarrow> (Inl e, s2)
             | (None, s2) \<Rightarrow>
                 (Inr \<lparr>learnings = all_learnings s2,
                       final_report = fallback_report (query req)\<rparr>, s2)))"

text \<open>The state in which a run starts at time \<open>t0\<close>.\<close>

definition boot :: "nat \<Rightarrow> state" where
  "boot t0 =
     \<lparr>clock = t0, total_queries = 0, all_learnings = [], iteration_learnings = [],
      gen_calls = 0, rag_calls = 0, ext_calls = 0, rep_calls = 0, sink_calls = 0,
      probe_calls = 0, trace = []\<rparr>"

text \<open>The round loop of a run, from the clamping of the parameters to the exit of the loop.\<close>

definition research_rounds :: "env \<Rightarrow> request \<Rightarrow> nat \<Rightarrow> (exc + stop) \<times> state" where
  "research_rounds ev req t0 =
     (case notify req
             (start_msg (min (depth req) 5) (min (breadth req) MAX_QUERIES_PER_ITERATION))
             (boot t0) of
        (Some e, s1) \<Rightarrow> (Inl e, s1)
      | (None, s1) \<Rightarrow>
          research_loop ev req (min (breadth req) MAX_QUERIES_PER_ITERATION) (min (depth req) 5)
            t0 0 (nat (min (depth req) 5)) s1)"

definition deep_research :: "env \<Rightarrow> request \<Rightarrow> nat \<Rightarrow> (exc + ResearchResult) \<times> state" where
  "deep_research ev req t0 =
     (case research_rounds ev req t0 of
        (Inl e, s2) \<Rightarrow> (Inl e, s2)
      | (Inr why, s2) \<Rightarrow> report_phase ev req s2)"

section \<open>Properties of runs\<close>

text \<open>A sink that never raises (or no sink at all).\<close>

definition sink_quiet :: "request \<Rightarrow> bool" where
  "sink_quiet req =
     (case on_progress req of None \<Rightarrow> True | Some sink \<Rightarrow> \<forall>k. snd (sink k) = None)"


text \<open>What a trace says about the extractions, the rounds, the queries and the report.\<close>

fun ev_learnings :: "event \<Rightarrow> string list" where
  "ev_learnings (Extracted r j ls) = ls"
| "ev_learnings _ = []"

definition gathered :: "event list \<Rightarrow> string list" where
  "gathered tr = concat (map ev_learnings tr)"

fun ev_position :: "event \<Rightarrow> (nat \<times> nat) list" where
  "ev_position (Extracted r j ls) = [(r, j)]"
| "ev_position _ = []"

definition positions :: "event list \<Rightarrow> (nat \<times> nat) list" where
  "positions tr = concat (map ev_position tr)"

definition pos_less :: "nat \<times> nat \<Rightarrow> nat \<times> nat \<Rightarrow> bool" where
  "pos_less p q = (fst p < fst q \<or> (fst p = fst q \<and> snd p < snd q))"

fun ev_round :: "event \<Rightarrow> (nat \<times> nat) list" where
  "ev_round (RoundStarted r t) = [(r, t)]"
| "ev_round _ = []"

definition rounds_started :: "event list \<Rightarrow> (nat \<times> nat) list" where
  "rounds_started tr = concat (map ev_round tr)"

fun ev_issue :: "event \<Rightarrow> (nat \<times> nat \<times> nat) list" where
  "ev_issue (QueryIssued r j t) = [(r, j, t)]"
| "ev_issue _ = []"

definition issued :: "event list \<Rightarrow> (nat \<times> nat \<times> nat) list" where
  "issued tr = concat (map ev_issue tr)"

definition report_calls :: "event list \<Rightarrow> nat" where
  "report_calls tr = length (filter (\<lambda>e. e = ReportCalled) tr)"

text \<open>Positions in strictly increasing order (round first, then candidate), all below a
  bound.\<close>

definition ordered_upto :: "nat \<times> nat \<Rightarrow> (nat \<times> nat) list \<Rightarrow> bool" where
  "ordered_upto bound ps = (sorted_wrt pos_less ps \<and> (\<forall>p \<in> set ps. pos_less p bound))"

text \<open>From \<open>s\<close> to \<open>s'\<close> the cumulative learnings stay, and the round's buffer grows by
  exactly the learnings that the trace gains.\<close>

definition buffer_grows :: "state \<Rightarrow> state \<Rightarrow> bool" where
  "buffer_grows s s' =
     (all_learnings s' = all_learnings s
      \<and> (\<exists>ls. iteration_learnings s' = iteration_learnings s @ ls
               \<and> gathered (trace s') = gathered (trace s) @ ls))"

text \<open>Report synthesis raises \<open>e\<close> after the fragments \<open>ys\<close>: either the model
  configuration lookup raises, before any fragment, or the stream of the provider does.\<close>

definition report_fails :: "env \<Rightarrow> request \<Rightarrow> state \<Rightarrow> exc \<Rightarrow> string list \<Rightarrow> bool" where
  "report_fails ev req s e ys =
     (get_model_config ev (provider req) = Some e \<and> ys = []
      \<or> get_model_config ev (provider req) = None \<and> known_provider (provider req)
         \<and> snd (llm_report ev (rep_calls s)) = (ys, Some e))"

section \<open>Concrete runs\<close>

definition q_auth :: query_info where
  "q_auth = [''query'' \<mapsto> ''auth'']"

text \<open>Every call succeeds; the model proposes five candidates in each round, four in the
  fourth. Retrieval finds nothing. No sink, no probe.\<close>

definition env_c1 :: env where
  "env_c1 =
     \<lparr>get_model_config = (\<lambda>p. None),
      llm_queries = (\<lambda>k. (0, Content [''queries'' \<mapsto>
         (if k = 3 then [q_auth, q_auth, q_auth, q_auth]
          else [q_auth, q_auth, q_auth, q_auth, q_auth])])),
      llm_learnings = (\<lambda>k. (0, NoContent)),
      llm_report = (\<lambda>k. (0, [], None))\<rparr>"

definition req_c1 :: request where
  "req_c1 =
     \<lparr>query = ''How does authentication work?'', rag_instance = (\<lambda>k. (0, Inr [])),
      breadth = 5, depth = 5, provider = ''openai'', language = ''en'',
      on_progress = None, check_cancelled = None\<rparr>"






text \<open>Two rounds of two candidates; retrieval finds one document each time; extraction
  returns two learnings, one, one (a duplicate of the first) and none; the report comes in two
  chunks. Every call takes some seconds. The variants: a first retrieval that takes 400
  seconds in a run of one round, and a probe that always says cancelled.\<close>

definition q_tok :: query_info where
  "q_tok = [''query'' \<mapsto> ''token'']"

definition doc_a :: document where
  "doc_a = \<lparr>doc_text = Some ''def login(): ...'', doc_file_path = Some ''api/auth.py''\<rparr>"

definition env_c3 :: env where
  "env_c3 =
     \<lparr>get_model_config = (\<lambda>p. None),
      llm_queries = (\<lambda>k. (1, Content [''queries'' \<mapsto> [q_auth, q_tok]])),
      llm_learnings = (\<lambda>k. (2, Content [''learnings'' \<mapsto>
         (if k = 0 then [''A1'', ''A2''] else if k = 1 then [''B1'']
          else if k = 2 then [''A1''] else [])])),
      llm_report = (\<lambda>k. (3, [''Report '', ''text''], None))\<rparr>"

definition req_c3 :: request where
  "req_c3 =
     \<lparr>query = ''How does authentication work?'', rag_instance = (\<lambda>k. (1, Inr [[doc_a]])),
      breadth = 2, depth = 2, provider = ''openai'', language = ''en'',
      on_progress = None, check_cancelled = None\<rparr>"




definition req_c4 :: request where
  "req_c4 = req_c3\<lparr>on_progress := Some (\<lambda>k. (0, None))\<rparr>"

text \<open>The report stream yields one fragment and then raises.\<close>

definition env_c8 :: env where
  "env_c8 = env_c3\<lparr>llm_report := (\<lambda>k. (3, [''Part one. ''], Some ''connection reset''))\<rparr>"

definition st_c8 :: state where
  "st_c8 = (boot 0)\<lparr>all_learnings := [''A1'']\<rparr>"

section \<open>Evaluation rules\<close>

lemmas run_defs =
  research_rounds_def deep_research_def report_phase_def boot_def notify_def cancelled_def
  generate_research_queries_def process_research_results_def search_and_extract_def
  finish_round_def stop_with_def write_final_report_streaming_def report_try_def
  py_prefix_def dict_get_def no_results_def known_provider_def
  MAX_RESEARCH_TIME_def MAX_QUERIES_PER_ITERATION_def MAX_TOTAL_QUERIES_def

section \<open>When the sink raises, and when it does not\<close>

lemma notify_quiet: "sink_quiet req \<Longrightarrow> notify req m s = (r, s') \<Longrightarrow> r = None"
  by (auto simp: sink_quiet_def notify_def split: option.splits prod.splits) (metis snd_conv option.distinct(1))


lemma stream_chunks_quiet:
  "sink_quiet req \<Longrightarrow> stream_chunks req cs s = ((r, ys), s') \<Longrightarrow> r = None \<and> concat ys = concat cs"
  by (induction cs arbitrary: s r ys s')
     (auto split: if_splits prod.splits option.splits dest: notify_quiet)

lemma process_queries_quiet:
  "sink_quiet req \<Longrightarrow> process_queries ev req b it i qs s = (r, s') \<Longrightarrow> r = None"
proof (induction qs arbitrary: i s)
  case Nil
  then show ?case by simp
next
  case (Cons q qs)
  from Cons.prems show ?case
    by (auto split: prod.splits bool.splits if_splits option.splits
             dest: notify_quiet Cons.IH [OF Cons.prems(1)])
qed


lemma finish_round_quiet: "sink_quiet req \<Longrightarrow> finish_round req it s = (r, s') \<Longrightarrow> r = None"
  by (auto simp: finish_round_def split: if_splits dest: notify_quiet)


lemma stop_with_quiet: "sink_quiet req \<Longrightarrow> stop_with req m why s = (r, s') \<Longrightarrow> r = Inr why"
  by (auto simp: stop_with_def split: prod.splits option.splits dest: notify_quiet)


lemma research_loop_quiet:
  "sink_quiet req \<Longrightarrow> research_loop ev req b d st it n s = (r, s') \<Longrightarrow> \<exists>why. r = Inr why"
proof (induction n arbitrary: it s)
  case 0
  then show ?case by auto
next
  case (Suc n)
  from Suc.prems show ?case
    by (auto split: prod.splits bool.splits if_splits option.splits
             dest: notify_quiet stop_with_quiet process_queries_quiet finish_round_quiet
                   Suc.IH [OF Suc.prems(1)])
qed


lemma research_rounds_quiet:
  "sink_quiet req \<Longrightarrow> \<exists>why. fst (research_rounds ev req t0) = Inr why"
  by (auto simp: research_rounds_def split: prod.splits option.splits
           dest: notify_quiet research_loop_quiet) (metis fst_conv research_loop_quiet surj_pair)


lemma write_final_report_streaming_quiet:
  "sink_quiet req \<Longrightarrow> write_final_report_streaming ev req s = ((r, ys), s') \<Longrightarrow> r = None"
  by (auto simp: write_final_report_streaming_def split: prod.splits option.splits
           dest: notify_quiet)


lemma report_phase_quiet:
  "sink_quiet req \<Longrightarrow> \<exists>r. fst (report_phase ev req s) = Inr r"
  by (auto simp: report_phase_def split: prod.splits option.splits
           dest: notify_quiet write_final_report_streaming_quiet)


lemma deep_research_quiet:
  "sink_quiet req \<Longrightarrow> \<exists>r. fst (deep_research ev req t0) = Inr r"
  using research_rounds_quiet [of req ev t0] report_phase_quiet [of req ev]
  by (auto simp: deep_research_def split: prod.splits sum.splits)


section \<open>What each step leaves alone\<close>


lemma notify_trace:
  "notify req m s = (r, s') \<Longrightarrow>
     gathered (trace s') = gathered (trace s) \<and> positions (trace s') = positions (trace s)
     \<and> rounds_started (trace s') = rounds_started (trace s)
     \<and> issued (trace s') = issued (trace s) \<and> report_calls (trace s') = report_calls (trace s)"
  by (auto simp: notify_def gathered_def positions_def rounds_started_def issued_def
           report_calls_def split: option.splits prod.splits)


lemma cancelled_trace:
  "cancelled req s = (c, s') \<Longrightarrow>
     gathered (trace s') = gathered (trace s) \<and> positions (trace s') = positions (trace s)
     \<and> rounds_started (trace s') = rounds_started (trace s)
     \<and> issued (trace s') = issued (trace s) \<and> report_calls (trace s') = report_calls (trace s)"
  by (auto simp: cancelled_def gathered_def positions_def rounds_started_def issued_def
           report_calls_def split: option.splits)

lemma generate_frame:
  "generate_research_queries ev oq nq prior prov s = (qs, s') \<Longrightarrow>
     all_learnings s' = all_learnings s \<and> iteration_learnings s' = iteration_learnings s
     \<and> total_queries s' = total_queries s \<and> trace s' = trace s \<and> clock s \<le> clock s'"
  by (auto simp: generate_research_queries_def split: option.splits prod.splits llm_response.splits if_splits)

lemma process_results_frame:
  "process_research_results ev sq docs nl nf prov s = (p, s') \<Longrightarrow>
     all_learnings s' = all_learnings s \<and> iteration_learnings s' = iteration_learnings s
     \<and> total_queries s' = total_queries s \<and> trace s' = trace s \<and> clock s \<le> clock s'"
  by (auto simp: process_research_results_def split: option.splits prod.splits llm_response.splits if_splits)





section \<open>Invariant rules for the two loops\<close>

lemma process_queries_rule:
  assumes "I i s"
    and "\<And>j t. I j t \<Longrightarrow> I j (snd (cancelled req t))"
    and "\<And>j t. I j t \<Longrightarrow>
           J j (t\<lparr>total_queries := Suc (total_queries t),
                  trace := trace t @ [QueryIssued it j (clock t)]\<rparr>)"
    and "\<And>j t m. J j t \<Longrightarrow> J j (snd (notify req m t))"
    and "\<And>j t sq. J j t \<Longrightarrow> K j (snd (search_and_extract ev req b it j sq t))"
    and "\<And>j t m. K j t \<Longrightarrow> K j (snd (notify req m t))"
    and "\<And>j t. J j t \<Longrightarrow> I (Suc j) t"
    and "\<And>j t. K j t \<Longrightarrow> I (Suc j) t"
    and "\<And>j t. I j t \<Longrightarrow> Q t" and "\<And>j t. J j t \<Longrightarrow> Q t" and "\<And>j t. K j t \<Longrightarrow> Q t"
  shows "Q (snd (process_queries ev req b it i qs s))"
  using assms(1)
proof (induction qs arbitrary: i s)
  case Nil
  then show ?case by (simp add: assms(9))
next
  case (Cons q qs)
  note I1 = assms(2) [OF Cons.prems]
  note J1 = assms(3) [OF I1]
  note J2 = assms(4) [OF J1]
  note K1 = assms(5) [OF J2]
  note K2 = assms(6) [OF K1]
  note r1 = Cons.IH [OF assms(7) [OF J1]]
  note r2 = Cons.IH [OF assms(8) [OF K1]]
  note r3 = Cons.IH [OF assms(8) [OF K2]]
  note e1 = assms(9) [OF I1]
  note e2 = assms(10) [OF J2]
  note e3 = assms(11) [OF K2]
  show ?case
    using r1 r2 r3 e1 e2 e3
    by (simp add: case_prod_unfold split: bool.splits option.splits)
qed


lemma research_loop_rule:
  assumes "R it n s"
    and x0: "\<And>j t. R j 0 t \<Longrightarrow> Q (Inr DepthReached, t)"
    and xc: "\<And>j m t. R j (Suc m) t \<Longrightarrow> fst (cancelled req t) \<Longrightarrow>
               Q (stop_with req cancelled_msg Cancelled (snd (cancelled req t)))"
    and xt: "\<And>j m t. R j (Suc m) t \<Longrightarrow> \<not> fst (cancelled req t) \<Longrightarrow>
               clock (snd (cancelled req t)) - start > MAX_RESEARCH_TIME \<Longrightarrow>
               Q (stop_with req timeout_msg TimedOut (snd (cancelled req t)))"
    and xl: "\<And>j m t. R j (Suc m) t \<Longrightarrow> \<not> fst (cancelled req t) \<Longrightarrow>
               \<not> clock (snd (cancelled req t)) - start > MAX_RESEARCH_TIME \<Longrightarrow>
               total_queries (snd (cancelled req t)) \<ge> MAX_TOTAL_QUERIES \<Longrightarrow>
               Q (stop_with req limit_msg QueryLimit (snd (cancelled req t)))"
    and st: "\<And>j m t. R j (Suc m) t \<Longrightarrow> \<not> fst (cancelled req t) \<Longrightarrow>
               \<not> clock (snd (cancelled req t)) - start > MAX_RESEARCH_TIME \<Longrightarrow>
               \<not> total_queries (snd (cancelled req t)) \<ge> MAX_TOTAL_QUERIES \<Longrightarrow>
               S j m ((snd (cancelled req t))\<lparr>trace := trace (snd (cancelled req t))
                        @ [RoundStarted j (clock (snd (cancelled req t)))]\<rparr>)"
    and ns: "\<And>j m t msg. S j m t \<Longrightarrow> S j m (snd (notify req msg t))"
    and xs: "\<And>j m t e. S j m t \<Longrightarrow> Q (Inl e, t)"
    and g: "\<And>j m t prior. S j m t \<Longrightarrow>
               G j m (fst (generate_research_queries ev (query req) b prior (provider req) t))
                     (snd (generate_research_queries ev (query req) b prior (provider req) t))"
    and xg: "\<And>j m t. G j m [] t \<Longrightarrow> Q (stop_with req no_queries_msg NoCandidates t)"
    and pq: "\<And>j m t qs. G j m qs t \<Longrightarrow> qs \<noteq> [] \<Longrightarrow>
               T j m (snd (process_queries ev req b j 0 qs (t\<lparr>iteration_learnings := []\<rparr>)))"
    and xp: "\<And>j m t e. T j m t \<Longrightarrow> Q (Inl e, t)"
    and f: "\<And>j m t. T j m t \<Longrightarrow> U j m (snd (finish_round req j t))"
    and xf: "\<And>j m t e. U j m t \<Longrightarrow> Q (Inl e, t)"
    and nx: "\<And>j m t. U j m t \<Longrightarrow> R (Suc j) m t"
  shows "Q (research_loop ev req b d start it n s)"
  using assms(1)
proof (induction n arbitrary: it s)
  case 0
  then show ?case by (simp add: x0)
next
  case (Suc n)
  note R1 = Suc.prems
  let ?t = "snd (cancelled req s)"
  show ?case
  proof (cases "fst (cancelled req s)")
    case True
    then show ?thesis
      using xc [OF R1 True] by (simp add: case_prod_unfold)
  next
    case nc: False
    show ?thesis
    proof (cases "clock ?t - start > MAX_RESEARCH_TIME")
      case True
      then show ?thesis
        using xt [OF R1 nc True] nc by (simp add: case_prod_unfold)
    next
      case nt: False
      show ?thesis
      proof (cases "total_queries ?t \<ge> MAX_TOTAL_QUERIES")
        case True
        then show ?thesis
          using xl [OF R1 nc nt True] nc nt by (simp add: case_prod_unfold)
      next
        case nl: False
        let ?s2 = "snd (notify req (iteration_msg it d)
                     (?t\<lparr>trace := trace ?t @ [RoundStarted it (clock ?t)]\<rparr>))"
        let ?gen = "generate_research_queries ev (query req) b
                      (if all_learnings ?s2 \<noteq> [] then Some (all_learnings ?s2) else None)
                      (provider req) ?s2"
        let ?s4 = "snd (process_queries ev req b it 0 (fst ?gen)
                     ((snd ?gen)\<lparr>iteration_learnings := []\<rparr>))"
        let ?s5 = "snd (finish_round req it ?s4)"
        have S1: "S it n ?s2" by (rule ns [OF st [OF R1 nc nt nl]])
        have G1: "G it n (fst ?gen) (snd ?gen)" by (rule g [OF S1])
        have eg: "fst ?gen = [] \<Longrightarrow> Q (stop_with req no_queries_msg NoCandidates (snd ?gen))"
          using G1 xg by metis
        have T1: "fst ?gen \<noteq> [] \<Longrightarrow> T it n ?s4" by (rule pq [OF G1])
        have U1: "fst ?gen \<noteq> [] \<Longrightarrow> U it n ?s5" by (rule f [OF T1])
        have r: "fst ?gen \<noteq> [] \<Longrightarrow>
            Q (research_loop ev req b d start (Suc it) n ?s5)"
          by (rule Suc.IH [OF nx [OF U1]])
        show ?thesis
        proof (cases "fst ?gen = []")
          case True
          then show ?thesis
            using nc nt nl xs [OF S1] eg
            by (simp add: case_prod_unfold split: option.splits split del: if_split)
        next
          case False
          then show ?thesis
            using nc nt nl xs [OF S1] xp [OF T1] xf [OF U1] r
            by (simp add: case_prod_unfold split: option.splits split del: if_split)
        qed
      qed
    qed
  qed
qed

section \<open>What each step does to the state and to the trace\<close>

lemma ordered_upto_mono:
  "ordered_upto (r, j) ps \<Longrightarrow> r < r' \<or> (r = r' \<and> j \<le> j') \<Longrightarrow> ordered_upto (r', j') ps"
  by (auto simp: ordered_upto_def pos_less_def)

lemma ordered_upto_snoc:
  "ordered_upto (r, j) ps \<Longrightarrow> ordered_upto (r, Suc j) (ps @ [(r, j)])"
  by (auto simp: ordered_upto_def pos_less_def sorted_wrt_append)

lemmas proj_defs = gathered_def positions_def rounds_started_def issued_def report_calls_def

lemma proj_snoc [simp]:
  "gathered (tr @ [e]) = gathered tr @ ev_learnings e"
  "positions (tr @ [e]) = positions tr @ ev_position e"
  "rounds_started (tr @ [e]) = rounds_started tr @ ev_round e"
  "issued (tr @ [e]) = issued tr @ ev_issue e"
  "report_calls (tr @ [e]) = report_calls tr + (if e = ReportCalled then 1 else 0)"
  by (simp_all add: proj_defs)

lemma proj_nil [simp]:
  "gathered [] = []" "positions [] = []" "rounds_started [] = []" "issued [] = []"
  "report_calls [] = 0"
  by (simp_all add: proj_defs)

lemma notify_fields [simp]:
  "all_learnings (snd (notify req m s)) = all_learnings s"
  "iteration_learnings (snd (notify req m s)) = iteration_learnings s"
  "total_queries (snd (notify req m s)) = total_queries s"
  "gen_calls (snd (notify req m s)) = gen_calls s"
  "rag_calls (snd (notify req m s)) = rag_calls s"
  "ext_calls (snd (notify req m s)) = ext_calls s"
  "rep_calls (snd (notify req m s)) = rep_calls s"
  "probe_calls (snd (notify req m s)) = probe_calls s"
  "gathered (trace (snd (notify req m s))) = gathered (trace s)"
  "positions (trace (snd (notify req m s))) = positions (trace s)"
  "rounds_started (trace (snd (notify req m s))) = rounds_started (trace s)"
  "issued (trace (snd (notify req m s))) = issued (trace s)"
  "report_calls (trace (snd (notify req m s))) = report_calls (trace s)"
  by (simp_all add: notify_def split: option.splits prod.splits)

lemma cancelled_fields [simp]:
  "all_learnings (snd (cancelled req s)) = all_learnings s"
  "iteration_learnings (snd (cancelled req s)) = iteration_learnings s"
  "total_queries (snd (cancelled req s)) = total_queries s"
  "gen_calls (snd (cancelled req s)) = gen_calls s"
  "rag_calls (snd (cancelled req s)) = rag_calls s"
  "ext_calls (snd (cancelled req s)) = ext_calls s"
  "rep_calls (snd (cancelled req s)) = rep_calls s"
  "sink_calls (snd (cancelled req s)) = sink_calls s"
  "clock (snd (cancelled req s)) = clock s"
  "gathered (trace (snd (cancelled req s))) = gathered (trace s)"
  "positions (trace (snd (cancelled req s))) = positions (trace s)"
  "rounds_started (trace (snd (cancelled req s))) = rounds_started (trace s)"
  "issued (trace (snd (cancelled req s))) = issued (trace s)"
  "report_calls (trace (snd (cancelled req s))) = report_calls (trace s)"
  by (simp_all add: cancelled_def split: option.splits)

lemma generate_fields [simp]:
  "all_learnings (snd (generate_research_queries ev oq nq prior prov s)) = all_learnings s"
  "iteration_learnings (snd (generate_research_queries ev oq nq prior prov s)) = iteration_learnings s"
  "total_queries (snd (generate_research_queries ev oq nq prior prov s)) = total_queries s"
  "trace (snd (generate_research_queries ev oq nq prior prov s)) = trace s"
  by (simp_all add: generate_research_queries_def split: option.splits prod.splits llm_response.splits)

lemma process_results_fields [simp]:
  "all_learnings (snd (process_research_results ev sq docs nl nf prov s)) = all_learnings s"
  "iteration_learnings (snd (process_research_results ev sq docs nl nf prov s)) = iteration_learnings s"
  "total_queries (snd (process_research_results ev sq docs nl nf prov s)) = total_queries s"
  "trace (snd (process_research_results ev sq docs nl nf prov s)) = trace s"
  by (simp_all add: process_research_results_def split: option.splits prod.splits llm_response.splits)

lemma search_and_extract_fields [simp]:
  "all_learnings (snd (search_and_extract ev req b it i sq s)) = all_learnings s"
  "total_queries (snd (search_and_extract ev req b it i sq s)) = total_queries s"
  "rounds_started (trace (snd (search_and_extract ev req b it i sq s))) = rounds_started (trace s)"
  "issued (trace (snd (search_and_extract ev req b it i sq s))) = issued (trace s)"
  "report_calls (trace (snd (search_and_extract ev req b it i sq s))) = report_calls (trace s)"
  by (simp_all add: search_and_extract_def case_prod_unfold split: sum.splits option.splits)

lemma search_and_extract_learn:
  "\<exists>ls. iteration_learnings (snd (search_and_extract ev req b it i sq s)) = iteration_learnings s @ ls
       \<and> gathered (trace (snd (search_and_extract ev req b it i sq s))) = gathered (trace s) @ ls"
  by (simp add: search_and_extract_def case_prod_unfold split: sum.splits option.splits)

lemma search_and_extract_positions:
  "positions (trace (snd (search_and_extract ev req b it i sq s))) = positions (trace s)
   \<or> positions (trace (snd (search_and_extract ev req b it i sq s))) = positions (trace s) @ [(it, i)]"
  by (simp add: search_and_extract_def case_prod_unfold split: sum.splits option.splits)


lemma search_and_extract_order:
  "ordered_upto (it, i) (positions (trace s)) \<Longrightarrow>
     ordered_upto (it, Suc i) (positions (trace (snd (search_and_extract ev req b it i sq s))))"
  using search_and_extract_positions [of ev req b it i sq s]
  by (auto intro: ordered_upto_snoc ordered_upto_mono)

lemma buffer_grows_refl [simp]: "buffer_grows s s"
  by (simp add: buffer_grows_def)

lemma buffer_grows_steps [simp]:
  "buffer_grows s0 t \<Longrightarrow> buffer_grows s0 (snd (notify req m t))"
  "buffer_grows s0 t \<Longrightarrow> buffer_grows s0 (snd (cancelled req t))"
  "buffer_grows s0 t \<Longrightarrow>
     buffer_grows s0 (t\<lparr>total_queries := n, trace := trace t @ [QueryIssued a c d]\<rparr>)"
  by (simp_all add: buffer_grows_def)

lemma buffer_grows_search [simp]:
  "buffer_grows s0 t \<Longrightarrow> buffer_grows s0 (snd (search_and_extract ev req b it i sq t))"
  using search_and_extract_learn [of ev req b it i sq t]
  by (auto simp: buffer_grows_def)

lemma process_queries_buffer:
  "buffer_grows s0 s \<Longrightarrow> buffer_grows s0 (snd (process_queries ev req b it i qs s))"
  by (induction qs arbitrary: i s)
     (simp_all add: case_prod_unfold split: bool.splits option.splits)

lemma stop_with_snd [simp]: "snd (stop_with req m why t) = snd (notify req m t)"
  by (simp add: stop_with_def case_prod_unfold split: option.splits)

lemma stop_with_fst:
  "fst (stop_with req m why t) = (case fst (notify req m t) of Some e \<Rightarrow> Inl e | None \<Rightarrow> Inr why)"
  by (simp add: stop_with_def case_prod_unfold split: option.splits)

lemma finish_round_fields [simp]:
  "all_learnings (snd (finish_round req it t)) = all_learnings t @ iteration_learnings t"
  "total_queries (snd (finish_round req it t)) = total_queries t"
  "gathered (trace (snd (finish_round req it t))) = gathered (trace t)"
  "positions (trace (snd (finish_round req it t))) = positions (trace t)"
  "rounds_started (trace (snd (finish_round req it t))) = rounds_started (trace t)"
  "issued (trace (snd (finish_round req it t))) = issued (trace t)"
  "report_calls (trace (snd (finish_round req it t))) = report_calls (trace t)"
  by (simp_all add: finish_round_def)

lemma process_queries_keeps:
  "rounds_started (trace (snd (process_queries ev req b it i qs s))) = rounds_started (trace s)
   \<and> report_calls (trace (snd (process_queries ev req b it i qs s))) = report_calls (trace s)
   \<and> all_learnings (snd (process_queries ev req b it i qs s)) = all_learnings s"
  by (rule process_queries_rule
        [where I = "\<lambda>j t. rounds_started (trace t) = rounds_started (trace s)
                           \<and> report_calls (trace t) = report_calls (trace s)
                           \<and> all_learnings t = all_learnings s"
           and J = "\<lambda>j t. rounds_started (trace t) = rounds_started (trace s)
                           \<and> report_calls (trace t) = report_calls (trace s)
                           \<and> all_learnings t = all_learnings s"
           and K = "\<lambda>j t. rounds_started (trace t) = rounds_started (trace s)
                           \<and> report_calls (trace t) = report_calls (trace s)
                           \<and> all_learnings t = all_learnings s"])
     simp_all

lemma process_queries_fields [simp]:
  "rounds_started (trace (snd (process_queries ev req b it i qs s))) = rounds_started (trace s)"
  "report_calls (trace (snd (process_queries ev req b it i qs s))) = report_calls (trace s)"
  "all_learnings (snd (process_queries ev req b it i qs s)) = all_learnings s"
  using process_queries_keeps [of ev req b it i qs s] by simp_all

lemma process_queries_order:
  "ordered_upto (it, i) (positions (trace s)) \<Longrightarrow>
     ordered_upto (Suc it, 0) (positions (trace (snd (process_queries ev req b it i qs s))))"
  by (rule process_queries_rule
        [where I = "\<lambda>j t. ordered_upto (it, j) (positions (trace t))"
           and J = "\<lambda>j t. ordered_upto (it, j) (positions (trace t))"
           and K = "\<lambda>j t. ordered_upto (it, Suc j) (positions (trace t))"])
     (auto intro: search_and_extract_order elim: ordered_upto_mono)


lemma process_queries_round:
  assumes "all_learnings t = gathered (trace t)"
  shows "gathered (trace (snd (process_queries ev req b j i qs (t\<lparr>iteration_learnings := []\<rparr>))))
         = gathered (trace t)
           @ iteration_learnings (snd (process_queries ev req b j i qs (t\<lparr>iteration_learnings := []\<rparr>)))"
  using process_queries_buffer [of "t\<lparr>iteration_learnings := []\<rparr>" "t\<lparr>iteration_learnings := []\<rparr>"
      ev req b j i qs] assms
  by (auto simp: buffer_grows_def)

lemma research_loop_learn:
  assumes "all_learnings s = gathered (trace s)"
    and "fst (research_loop ev req b d start it n s) = Inr why"
  shows "all_learnings (snd (research_loop ev req b d start it n s))
         = gathered (trace (snd (research_loop ev req b d start it n s)))"
proof -
  have "(\<lambda>p. \<forall>w. fst p = Inr w \<longrightarrow> all_learnings (snd p) = gathered (trace (snd p)))
          (research_loop ev req b d start it n s)"
    by (rule research_loop_rule
          [where R = "\<lambda>j m t. all_learnings t = gathered (trace t)"
             and S = "\<lambda>j m t. all_learnings t = gathered (trace t)"
             and G = "\<lambda>j m qs t. all_learnings t = gathered (trace t)"
             and T = "\<lambda>j m t. all_learnings t @ iteration_learnings t = gathered (trace t)"
             and U = "\<lambda>j m t. all_learnings t = gathered (trace t)"])
       (simp_all add: assms(1) process_queries_round)
  with assms(2) show ?thesis by simp
qed

lemma research_loop_order:
  assumes "ordered_upto (it, 0) (positions (trace s))"
  shows "sorted_wrt pos_less (positions (trace (snd (research_loop ev req b d start it n s))))"
proof -
  have fin: "\<And>j ps. ordered_upto (j, 0) ps \<Longrightarrow> sorted_wrt pos_less ps"
    and fin': "\<And>j ps. ordered_upto (Suc j, 0) ps \<Longrightarrow> sorted_wrt pos_less ps"
    by (simp_all add: ordered_upto_def)
  show ?thesis
    by (rule research_loop_rule
          [where Q = "\<lambda>p. sorted_wrt pos_less (positions (trace (snd p)))"
             and R = "\<lambda>j m t. ordered_upto (j, 0) (positions (trace t))"
             and S = "\<lambda>j m t. ordered_upto (j, 0) (positions (trace t))"
             and G = "\<lambda>j m qs t. ordered_upto (j, 0) (positions (trace t))"
             and T = "\<lambda>j m t. ordered_upto (Suc j, 0) (positions (trace t))"
             and U = "\<lambda>j m t. ordered_upto (Suc j, 0) (positions (trace t))"])
       (simp_all add: assms process_queries_order fin fin')
qed




lemma stream_chunks_fields [simp]:
  "all_learnings (snd (stream_chunks req cs s)) = all_learnings s"
  "gathered (trace (snd (stream_chunks req cs s))) = gathered (trace s)"
  "positions (trace (snd (stream_chunks req cs s))) = positions (trace s)"
  "rounds_started (trace (snd (stream_chunks req cs s))) = rounds_started (trace s)"
  "issued (trace (snd (stream_chunks req cs s))) = issued (trace s)"
  "report_calls (trace (snd (stream_chunks req cs s))) = report_calls (trace s)"
  by (induction cs arbitrary: s; simp add: case_prod_unfold split: option.splits)+

lemma report_try_fields [simp]:
  "all_learnings (snd (report_try ev req s)) = all_learnings s"
  "gathered (trace (snd (report_try ev req s))) = gathered (trace s)"
  "positions (trace (snd (report_try ev req s))) = positions (trace s)"
  "rounds_started (trace (snd (report_try ev req s))) = rounds_started (trace s)"
  "issued (trace (snd (report_try ev req s))) = issued (trace s)"
  "report_calls (trace (snd (report_try ev req s))) = report_calls (trace s)"
  by (simp_all add: report_try_def case_prod_unfold split: option.splits)

lemma write_final_report_streaming_fields [simp]:
  "all_learnings (snd (write_final_report_streaming ev req s)) = all_learnings s"
  "gathered (trace (snd (write_final_report_streaming ev req s))) = gathered (trace s)"
  "positions (trace (snd (write_final_report_streaming ev req s))) = positions (trace s)"
  "rounds_started (trace (snd (write_final_report_streaming ev req s))) = rounds_started (trace s)"
  "issued (trace (snd (write_final_report_streaming ev req s))) = issued (trace s)"
  "report_calls (trace (snd (write_final_report_streaming ev req s))) = Suc (report_calls (trace s))"
  by (simp_all add: write_final_report_streaming_def case_prod_unfold split: option.splits)

lemma report_phase_fields [simp]:
  "all_learnings (snd (report_phase ev req s)) = all_learnings s"
  "gathered (trace (snd (report_phase ev req s))) = gathered (trace s)"
  "positions (trace (snd (report_phase ev req s))) = positions (trace s)"
  "rounds_started (trace (snd (report_phase ev req s))) = rounds_started (trace s)"
  "issued (trace (snd (report_phase ev req s))) = issued (trace s)"
  by (simp_all add: report_phase_def case_prod_unfold split: option.splits)

lemma report_phase_learnings:
  "fst (report_phase ev req s) = Inr r \<Longrightarrow> learnings r = all_learnings s"
  by (auto simp: report_phase_def case_prod_unfold split: option.splits if_splits)

lemma research_rounds_learn:
  "fst (research_rounds ev req t0) = Inr why \<Longrightarrow>
     all_learnings (snd (research_rounds ev req t0))
     = gathered (trace (snd (research_rounds ev req t0)))"
  by (auto simp: research_rounds_def case_prod_unfold boot_def split: option.splits
           intro!: research_loop_learn)

lemma research_rounds_order:
  "sorted_wrt pos_less (positions (trace (snd (research_rounds ev req t0))))"
  by (auto simp: research_rounds_def case_prod_unfold boot_def ordered_upto_def
           split: option.splits intro!: research_loop_order)




lemmas c3_defs = env_c3_def req_c3_def q_auth_def q_tok_def doc_a_def




lemma deep_research_fields [simp]:
  "gathered (trace (snd (deep_research ev req t0))) = gathered (trace (snd (research_rounds ev req t0)))"
  "positions (trace (snd (deep_research ev req t0))) = positions (trace (snd (research_rounds ev req t0)))"
  "rounds_started (trace (snd (deep_research ev req t0))) = rounds_started (trace (snd (research_rounds ev req t0)))"
  "issued (trace (snd (deep_research ev req t0))) = issued (trace (snd (research_rounds ev req t0)))"
  "all_learnings (snd (deep_research ev req t0)) = all_learnings (snd (research_rounds ev req t0))"
  by (simp_all add: deep_research_def case_prod_unfold split: sum.splits)

lemma deep_research_learnings:
  "fst (deep_research ev req t0) = Inr r \<Longrightarrow>
     learnings r = all_learnings (snd (research_rounds ev req t0))
     \<and> (\<exists>why. fst (research_rounds ev req t0) = Inr why)"
  by (auto simp: deep_research_def case_prod_unfold split: sum.splits
           dest: report_phase_learnings)


lemma research_loop_numeral:
  "research_loop ev req b d st it (numeral k) s
   = research_loop ev req b d st it (Suc (pred_numeral k)) s"
  by (simp add: numeral_eq_Suc)

section \<open>The report phase\<close>

lemma notify_quiet_fst [simp]: "sink_quiet req \<Longrightarrow> fst (notify req m s) = None"
  using notify_quiet [of req m s "fst (notify req m s)" "snd (notify req m s)"] by simp

lemma notify_quiet_trace:
  "sink_quiet req \<Longrightarrow> on_progress req \<noteq> None \<Longrightarrow>
     trace (snd (notify req m s)) = trace s @ [Progress m]"
  by (auto simp: sink_quiet_def notify_def case_prod_unfold split: option.splits)

lemma stream_chunks_quiet_fst [simp]:
  "sink_quiet req \<Longrightarrow> fst (fst (stream_chunks req cs s)) = None"
  "sink_quiet req \<Longrightarrow> concat (snd (fst (stream_chunks req cs s))) = concat cs"
  using stream_chunks_quiet [of req cs s "fst (fst (stream_chunks req cs s))"
      "snd (fst (stream_chunks req cs s))" "snd (stream_chunks req cs s)"]
  by simp_all


lemma report_phase_failure:
  assumes "sink_quiet req" and "all_learnings s \<noteq> []" and "report_fails ev req s e ys"
  shows "fst (report_phase ev req s)
           = Inr \<lparr>learnings = all_learnings s, final_report = concat ys @ report_error_msg e\<rparr>"
    and "on_progress req \<noteq> None \<Longrightarrow>
           last (trace (snd (report_phase ev req s))) = Progress (report_error_msg e)"
  using assms
  by (auto simp: report_phase_def write_final_report_streaming_def report_try_def
        report_fails_def case_prod_unfold notify_quiet_trace split: option.splits)




section \<open>The global query ceiling\<close>

text \<open>
  C1: the total number of queries issued over a run is at most MAX_TOTAL_QUERIES = 20.
  The code compares \<open>total_queries\<close> with the ceiling only at the top of a round, so a round
  that starts at 19 still issues all its candidates: with depth 5, breadth 5 and candidate
  lists of 5, 5, 5, 4 and 5 queries the counter ends at 24.
\<close>

theorem total_queries_exceeds_ceiling:
  "total_queries (snd (research_rounds env_c1 req_c1 0)) = 24
   \<and> MAX_TOTAL_QUERIES = 20"
  by (simp add: run_defs env_c1_def req_c1_def q_auth_def eval_nat_numeral)

section \<open>Failures of the collaborators\<close>




section \<open>Failures of the progress sink\<close>




section \<open>The order of the learnings\<close>

text \<open>
  C3: the learnings of the returned result are, in this order and with nothing dropped,
  merged or rewritten, the lists that extraction returned, call after call: the result's
  learnings equal the concatenation of the extractions in the trace. The extractions carry
  their round and their candidate index, and these positions increase strictly along the
  trace, the round first: round k comes before round k+1, and within a round candidate i
  before candidate i+1. A run whose sink does not raise does return a result.
\<close>

theorem learnings_in_discovery_order:
  "(fst (deep_research ev req t0) = Inr r \<longrightarrow>
      learnings r = gathered (trace (snd (deep_research ev req t0))))
   \<and> sorted_wrt pos_less (positions (trace (snd (deep_research ev req t0))))
   \<and> (sink_quiet req \<longrightarrow> (\<exists>r'. fst (deep_research ev req t0) = Inr r'))"
  using deep_research_learnings [of ev req t0 r] research_rounds_learn [of ev req t0]
    research_rounds_order [of ev req t0] deep_research_quiet [of req ev t0]
  by auto

text \<open>The theorem for C3 at a run of two rounds, where the third extraction repeats a
  learning of the first: the duplicate is kept.\<close>

theorem learnings_in_discovery_order_witness:
  "fst (deep_research env_c3 req_c3 0)
     = Inr \<lparr>learnings = [''A1'', ''A2'', ''B1'', ''A1''], final_report = ''Report text''\<rparr>
   \<and> gathered (trace (snd (deep_research env_c3 req_c3 0))) = [''A1'', ''A2'', ''B1'', ''A1'']
   \<and> positions (trace (snd (deep_research env_c3 req_c3 0))) = [(0, 0), (0, 1), (1, 0), (1, 1)]
   \<and> sorted_wrt pos_less (positions (trace (snd (deep_research env_c3 req_c3 0))))
   \<and> sink_quiet req_c3"
proof -
  have e: "fst (deep_research env_c3 req_c3 0)
     = Inr \<lparr>learnings = [''A1'', ''A2'', ''B1'', ''A1''], final_report = ''Report text''\<rparr>"
    by (simp add: run_defs c3_defs eval_nat_numeral del: deep_research_fields)
  have p: "positions (trace (snd (deep_research env_c3 req_c3 0))) = [(0, 0), (0, 1), (1, 0), (1, 1)]"
    by (simp add: run_defs c3_defs proj_defs eval_nat_numeral del: deep_research_fields)
  have q: "sink_quiet req_c3" by (simp add: sink_quiet_def req_c3_def)
  from learnings_in_discovery_order
    [of env_c3 req_c3 0 "\<lparr>learnings = [''A1'', ''A2'', ''B1'', ''A1''], final_report = ''Report text''\<rparr>"]
    e p q
  show ?thesis by (simp del: deep_research_fields)
qed

section \<open>The wall-clock ceiling\<close>




section \<open>The bounds on rounds and on queries per round\<close>




section \<open>The fallback report\<close>



section \<open>Failure of report synthesis\<close>

text \<open>
  C8, as the code has it: with learnings to report and a sink that is absent or never
  raises, an exception \<open>e\<close> of report synthesis does not reach the caller. The result is
  returned with the learnings, its \<open>final_report\<close> is the fragments streamed before the
  failure followed by the error message for \<open>e\<close>, and the error message is the last
  message the sink received.
\<close>

theorem report_failure_becomes_text:
  assumes "sink_quiet req" and "all_learnings s \<noteq> []" and "report_fails ev req s e ys"
  shows "fst (report_phase ev req s)
           = Inr \<lparr>learnings = all_learnings s, final_report = concat ys @ report_error_msg e\<rparr>
       \<and> (on_progress req \<noteq> None \<longrightarrow>
            last (trace (snd (report_phase ev req s))) = Progress (report_error_msg e))"
  using report_phase_failure [OF assms] by simp

text \<open>
  C8 as stated ("a textual error message is used as the final_report value") fails when the
  stream raises after a fragment: the fragment stays in the report, before the error message.
\<close>

theorem partial_report_precedes_error_text:
  "fst (deep_research env_c8 req_c3 0)
     = Inr \<lparr>learnings = [''A1'', ''A2'', ''B1'', ''A1''],
            final_report = ''Part one. Error generating final report: connection reset''\<rparr>
   \<and> ''Part one. Error generating final report: connection reset''
       \<noteq> report_error_msg ''connection reset''"
  by (simp add: run_defs env_c8_def c3_defs report_error_msg_def
        research_loop_numeral del: deep_research_fields)

text \<open>The theorem for C8 at a stream that raises after one fragment.\<close>

theorem report_failure_becomes_text_witness:
  "fst (report_phase env_c8 req_c4 st_c8)
     = Inr \<lparr>learnings = [''A1''],
            final_report = ''Part one. '' @ report_error_msg ''connection reset''\<rparr>
   \<and> last (trace (snd (report_phase env_c8 req_c4 st_c8)))
       = Progress (report_error_msg ''connection reset'')"
proof -
  have a: "sink_quiet req_c4" and b: "all_learnings st_c8 \<noteq> []"
    and c: "report_fails env_c8 req_c4 st_c8 ''connection reset'' [''Part one. '']"
    and d: "on_progress req_c4 \<noteq> None" and e: "all_learnings st_c8 = [''A1'']"
    by (simp_all add: sink_quiet_def req_c4_def env_c8_def c3_defs st_c8_def boot_def
          report_fails_def known_provider_def)
  from report_failure_becomes_text [OF a b c] d e show ?thesis
    by simp
qed
end
